theory Spec2Isabelle
  imports Main "HOL-Library.Word" "HOL-Library.AList" "HOL-Library.Multiset"
begin

section \<open>Data model\<close>

text \<open>
  The repository stores entities of the event-sourcing library: values with an
  \<open>EntityID()\<close> of type \<open>uuid.UUID\<close> (16 bytes, \<open>uuid.Nil\<close> all zero). The entity
  type of this repository is \<open>mocks.Model\<close> (src/pkg/mocks/mocks.go), whose four
  fields carry the column names \<open>id\<close>, \<open>version\<close>, \<open>content\<close> and \<open>created_at\<close> in
  their \<open>db\<close> tags. A \<open>time.Time\<close> is kept as an instant on the time line.
\<close>

type_synonym uuid = "128 word"

definition uuid_Nil :: uuid where
  "uuid_Nil = 0"

type_synonym timestamp = int

record Model =
  ID :: uuid
  Version :: int
  Content :: string
  CreatedAt :: timestamp

definition EntityID :: "Model \<Rightarrow> uuid" where
  "EntityID m = ID m"

text \<open>A value bound to a statement parameter or read from a column.\<close>

datatype sqlval = VNull | VUuid uuid | VInt int | VText string | VTime timestamp

type_synonym row = "(string \<times> sqlval) list"

text \<open>
  \<open>reflectx.NewMapper("db").FieldMap\<close> on a \<open>Model\<close>: every exported field under the
  name of its \<open>db\<close> tag. The Go map is iterated in an unspecified order; the model
  iterates in declaration order.
\<close>

definition FieldMap :: "Model \<Rightarrow> (string \<times> sqlval) list" where
  "FieldMap m =
     [(''id'', VUuid (ID m)), (''version'', VInt (Version m)),
      (''content'', VText (Content m)), (''created_at'', VTime (CreatedAt m))]"

subsection \<open>Errors\<close>

text \<open>
  Errors of the driver and the client library. The repository never inspects them;
  it only wraps them.
\<close>

datatype driver_error =
    ErrNoRows
  | ErrConnDone
  | ErrTxDone
  | UndefinedTable string
  | UndefinedColumn string
  | NotNullViolation string
  | DatatypeMismatch string
  | MissingDestination string
  | NullConversion string
  | MissingBindValue string
  | UnsupportedStatement

text \<open>
  A Go \<open>error\<close> value: one of the sentinels of the package and of the library, a
  driver error, or the envelope \<open>eh.RepoError{Err, BaseErr, Namespace}\<close>.
\<close>

datatype go_error =
    ErrCouldNotDialDB
  | ErrCouldNotClearDB
  | ErrNoDBClient
  | ErrModelNotSet
  | ErrEntityNotFound
  | ErrCouldNotSaveEntity
  | ErrCouldNotRemoveEntity
  | ErrMissingEntityID
  | Driver driver_error
  | RepoError (Err: go_error) (BaseErr: "go_error option") (Namespace: string)

fun is_RepoError :: "go_error \<Rightarrow> bool" where
  "is_RepoError (RepoError k c ns) = True"
| "is_RepoError _ = False"

text \<open>A call either returns or panics (\<open>MustBeginTx\<close>, \<open>MustExec\<close>, a nil function).\<close>

datatype 'a outcome = Panics | Returns 'a

subsection \<open>Context and configuration\<close>

text \<open>
  Modelled from the spec: \<open>eh.NamespaceFromContext\<close> belongs to the event-sourcing
  library; the namespace is a string extracted from the call context.
\<close>

record Context =
  ctx_namespace :: string

definition NamespaceFromContext :: "Context \<Rightarrow> string" where
  "NamespaceFromContext ctx = ctx_namespace ctx"

record Config =
  TableName :: string
  dbName :: "(Context \<Rightarrow> string) option"

subsection \<open>Statements\<close>

text \<open>
  The statements the repository builds with \<open>fmt.Sprintf\<close>, as syntax trees;
  \<open>sql_text\<close> gives the text each stands for.
\<close>

datatype query =
    SelectWhereId string
  | SelectAll string
  | InsertOnConflictUpdate string "string list" "string list" "(string \<times> string) list"
  | DeleteWhereId string
  | DeleteAll string

fun Join :: "string list \<Rightarrow> string \<Rightarrow> string" where
  "Join [] sep = []"
| "Join [x] sep = x"
| "Join (x # y # ys) sep = x @ sep @ Join (y # ys) sep"

fun sql_text :: "query \<Rightarrow> string" where
  "sql_text (SelectWhereId t) = ''SELECT * FROM '' @ t @ '' WHERE id=$1''"
| "sql_text (SelectAll t) = ''SELECT * FROM '' @ t"
| "sql_text (InsertOnConflictUpdate t cols binds excluded) =
     ''INSERT INTO '' @ t @ '' ('' @ Join cols '', '' @ '') VALUES ('' @
     '':'' @ Join binds '', :'' @ '') ON CONFLICT (id) DO UPDATE SET '' @
     Join (map (\<lambda>(f, e). f @ '' = EXCLUDED.'' @ e) excluded) '', '' @ '';''"
| "sql_text (DeleteWhereId t) = ''DELETE FROM '' @ t @ '' WHERE id = $1''"
| "sql_text (DeleteAll t) = ''delete from '' @ t"

fun query_table :: "query \<Rightarrow> string" where
  "query_table (SelectWhereId t) = t"
| "query_table (SelectAll t) = t"
| "query_table (InsertOnConflictUpdate t cols binds excluded) = t"
| "query_table (DeleteWhereId t) = t"
| "query_table (DeleteAll t) = t"

subsection \<open>The client\<close>

text \<open>
  Modelled from the spec: the Backend is the opaque driver capability the repository
  delegates to (select by id, scan all, upsert, delete by id, delete all in a
  transaction). The client is a record of the \<open>sqlx\<close> methods the repository calls,
  each a function of the state \<open>'db\<close> of the database behind the connection.
  \<open>sql.Result.RowsAffected()\<close> returns a count and an error.
\<close>

type_synonym sql_Result = "int \<times> driver_error option"

record 'db sqlx_DB =
  drv_GetContext :: "Model \<Rightarrow> query \<Rightarrow> sqlval list \<Rightarrow> 'db \<Rightarrow> (driver_error + Model) \<times> 'db"
  drv_QueryxContext :: "query \<Rightarrow> 'db \<Rightarrow> (driver_error + row list) \<times> 'db"
  drv_StructScan :: "row \<Rightarrow> Model \<Rightarrow> driver_error + Model"
  drv_NamedExecContext ::
    "query \<Rightarrow> (string \<times> sqlval) list \<Rightarrow> 'db \<Rightarrow> (driver_error + sql_Result) \<times> 'db"
  drv_ExecContext :: "query \<Rightarrow> sqlval list \<Rightarrow> 'db \<Rightarrow> (driver_error + sql_Result) \<times> 'db"
  drv_BeginTx :: "'db \<Rightarrow> driver_error option \<times> 'db"
  drv_TxExec :: "query \<Rightarrow> 'db \<Rightarrow> driver_error option \<times> 'db"
  drv_Commit :: "'db \<Rightarrow> driver_error option \<times> 'db"

text \<open>
  The world a call runs in: the database, and the journal of the calls the
  repository has made on its client, oldest first.
\<close>

datatype backend_call = Statement query | Begin | CommitTx

record 'db world =
  database :: 'db
  journal :: "backend_call list"

record 'db Repo =
  client :: "'db sqlx_DB"
  config :: Config
  factoryFn :: "(unit \<Rightarrow> Model) option"

definition GetContext ::
  "'db Repo \<Rightarrow> Model \<Rightarrow> query \<Rightarrow> sqlval list \<Rightarrow> 'db world \<Rightarrow> (driver_error + Model) \<times> 'db world" where
  "GetContext r dest q args w =
     (case drv_GetContext (client r) dest q args (database w) of
        (res, d) \<Rightarrow> (res, \<lparr>database = d, journal = journal w @ [Statement q]\<rparr>))"

definition QueryxContext ::
  "'db Repo \<Rightarrow> query \<Rightarrow> 'db world \<Rightarrow> (driver_error + row list) \<times> 'db world" where
  "QueryxContext r q w =
     (case drv_QueryxContext (client r) q (database w) of
        (res, d) \<Rightarrow> (res, \<lparr>database = d, journal = journal w @ [Statement q]\<rparr>))"

definition NamedExecContext ::
  "'db Repo \<Rightarrow> query \<Rightarrow> (string \<times> sqlval) list \<Rightarrow> 'db world \<Rightarrow>
     (driver_error + sql_Result) \<times> 'db world" where
  "NamedExecContext r q vals w =
     (case drv_NamedExecContext (client r) q vals (database w) of
        (res, d) \<Rightarrow> (res, \<lparr>database = d, journal = journal w @ [Statement q]\<rparr>))"

definition ExecContext ::
  "'db Repo \<Rightarrow> query \<Rightarrow> sqlval list \<Rightarrow> 'db world \<Rightarrow> (driver_error + sql_Result) \<times> 'db world" where
  "ExecContext r q args w =
     (case drv_ExecContext (client r) q args (database w) of
        (res, d) \<Rightarrow> (res, \<lparr>database = d, journal = journal w @ [Statement q]\<rparr>))"

definition BeginTx :: "'db Repo \<Rightarrow> 'db world \<Rightarrow> driver_error option \<times> 'db world" where
  "BeginTx r w =
     (case drv_BeginTx (client r) (database w) of
        (res, d) \<Rightarrow> (res, \<lparr>database = d, journal = journal w @ [Begin]\<rparr>))"

definition TxExec :: "'db Repo \<Rightarrow> query \<Rightarrow> 'db world \<Rightarrow> driver_error option \<times> 'db world" where
  "TxExec r q w =
     (case drv_TxExec (client r) q (database w) of
        (res, d) \<Rightarrow> (res, \<lparr>database = d, journal = journal w @ [Statement q]\<rparr>))"

definition Commit :: "'db Repo \<Rightarrow> 'db world \<Rightarrow> driver_error option \<times> 'db world" where
  "Commit r w =
     (case drv_Commit (client r) (database w) of
        (res, d) \<Rightarrow> (res, \<lparr>database = d, journal = journal w @ [CommitTx]\<rparr>))"

section \<open>The repository on sqlx\<close>

text \<open>
  \<open>NewRepoWithClient\<close>: a nil client is refused with the bare sentinel; otherwise
  the repository binds client and configuration, no factory yet, and stores the
  namespace-aware name builder in the configuration.
\<close>

definition NewRepoWithClient :: "Config \<Rightarrow> 'db sqlx_DB option \<Rightarrow> go_error + 'db Repo" where
  "NewRepoWithClient cfg cl =
     (case cl of
        None \<Rightarrow> Inl ErrNoDBClient
      | Some c \<Rightarrow>
          Inr \<lparr>client = c,
               config = cfg\<lparr>dbName :=
                 Some (\<lambda>ctx. TableName cfg @ ''_'' @ NamespaceFromContext ctx)\<rparr>,
               factoryFn = None\<rparr>)"

definition SetEntityFactory :: "'db Repo \<Rightarrow> (unit \<Rightarrow> Model) option \<Rightarrow> 'db Repo" where
  "SetEntityFactory r f = r\<lparr>factoryFn := f\<rparr>"

definition Find ::
  "'db Repo \<Rightarrow> Context \<Rightarrow> uuid \<Rightarrow> 'db world \<Rightarrow> (go_error + Model) \<times> 'db world" where
  "Find r ctx i w =
     (let ns = NamespaceFromContext ctx in
      case factoryFn r of
        None \<Rightarrow> (Inl (RepoError ErrModelNotSet None ns), w)
      | Some f \<Rightarrow>
          (let entity = f () in
           case GetContext r entity (SelectWhereId (TableName (config r))) [VUuid i] w of
             (Inl err, w') \<Rightarrow>
               (Inl (RepoError ErrEntityNotFound (Some (Driver err))
                      (NamespaceFromContext ctx)), w')
           | (Inr entity', w') \<Rightarrow> (Inr entity', w')))"

text \<open>
  The loop of \<open>FindAll\<close> over the fetched rows: a row that does not scan ends the
  call with the scan error as it is; otherwise the entity is appended and a new
  one is taken from the factory.
\<close>

fun scan_rows ::
  "'db Repo \<Rightarrow> (unit \<Rightarrow> Model) \<Rightarrow> row list \<Rightarrow> Model \<Rightarrow> Model list \<Rightarrow> go_error + Model list" where
  "scan_rows r f [] entity result = Inr result"
| "scan_rows r f (rw # rows) entity result =
     (case drv_StructScan (client r) rw entity of
        Inl err \<Rightarrow> Inl (Driver err)
      | Inr entity' \<Rightarrow> scan_rows r f rows (f ()) (result @ [entity']))"

definition FindAll ::
  "'db Repo \<Rightarrow> Context \<Rightarrow> 'db world \<Rightarrow> (go_error + Model list) \<times> 'db world" where
  "FindAll r ctx w =
     (let ns = NamespaceFromContext ctx in
      case factoryFn r of
        None \<Rightarrow> (Inl (RepoError ErrModelNotSet None ns), w)
      | Some f \<Rightarrow>
          (let entity = f () in
           case QueryxContext r (SelectAll (TableName (config r))) w of
             (Inr rows, w') \<Rightarrow>
               (case scan_rows r f rows entity [] of
                  Inl err \<Rightarrow> (Inl err, w')
                | Inr result \<Rightarrow> (Inr result, w'))
           | (Inl err, w') \<Rightarrow>
               (Inl (RepoError ErrEntityNotFound (Some (Driver err)) ns), w')))"

definition FindWithFilter ::
  "'db Repo \<Rightarrow> Context \<Rightarrow> string \<Rightarrow> sqlval list \<Rightarrow> 'db world \<Rightarrow>
     (go_error + Model list) \<times> 'db world" where
  "FindWithFilter r ctx expr args w =
     (case factoryFn r of
        None \<Rightarrow> (Inl (RepoError ErrModelNotSet None (NamespaceFromContext ctx)), w)
      | Some f \<Rightarrow> (Inr [], w))"

record IndexInput =
  IndexName :: string
  PartitionKey :: string
  PartitionKeyValue :: sqlval
  SortKey :: string
  SortKeyValue :: sqlval

definition FindWithFilterUsingIndex ::
  "'db Repo \<Rightarrow> Context \<Rightarrow> IndexInput \<Rightarrow> string \<Rightarrow> sqlval list \<Rightarrow> 'db world \<Rightarrow>
     (go_error + Model list) \<times> 'db world" where
  "FindWithFilterUsingIndex r ctx indexInput filterQuery filterArgs w =
     (case factoryFn r of
        None \<Rightarrow> (Inl (RepoError ErrModelNotSet None (NamespaceFromContext ctx)), w)
      | Some f \<Rightarrow> (Inr [], w))"

text \<open>
  The statement \<open>Save\<close> builds from the fields of the entity: every field is
  inserted under its bind variable and, on a conflict on \<open>id\<close>, every field is set
  to the incoming (\<open>EXCLUDED\<close>) value.
\<close>

definition save_statement :: "string \<Rightarrow> Model \<Rightarrow> query \<times> (string \<times> sqlval) list" where
  "save_statement tableName entity =
     (let fields = FieldMap entity;
          mapFields = map fst fields;
          mapValues = fields;
          excludedFields = map (\<lambda>field. (field, field)) mapFields
      in (InsertOnConflictUpdate tableName mapFields mapFields excludedFields, mapValues))"

text \<open>
  \<open>Save\<close>: the zero identifier is refused before anything else. The statement
  must run without an error and report exactly one row.
\<close>

definition Save ::
  "'db Repo \<Rightarrow> Context \<Rightarrow> Model \<Rightarrow> 'db world \<Rightarrow> go_error option \<times> 'db world" where
  "Save r ctx entity w =
     (if EntityID entity = uuid_Nil then
        (Some (RepoError ErrCouldNotSaveEntity (Some ErrMissingEntityID)
                 (NamespaceFromContext ctx)), w)
      else
        (case save_statement (TableName (config r)) entity of
           (q, mapValues) \<Rightarrow>
             (case NamedExecContext r q mapValues w of
                (Inl err, w') \<Rightarrow>
                  (Some (RepoError ErrCouldNotSaveEntity (Some (Driver err))
                           (NamespaceFromContext ctx)), w')
              | (Inr (affected, err), w') \<Rightarrow>
                  (if err \<noteq> None \<or> affected \<noteq> 1 then
                     (Some (RepoError ErrCouldNotSaveEntity (map_option Driver err)
                              (NamespaceFromContext ctx)), w')
                   else (None, w')))))"

text \<open>
  \<open>Remove\<close>: the result \<open>w\<close> of a call that returned no error is not nil, so the
  test \<open>w != nil && affected != 1\<close> is the test on the count alone.
\<close>

definition Remove ::
  "'db Repo \<Rightarrow> Context \<Rightarrow> uuid \<Rightarrow> 'db world \<Rightarrow> go_error option \<times> 'db world" where
  "Remove r ctx i w =
     (case ExecContext r (DeleteWhereId (TableName (config r))) [VUuid i] w of
        (Inl err, w') \<Rightarrow>
          (Some (RepoError ErrCouldNotRemoveEntity (Some (Driver err))
                   (NamespaceFromContext ctx)), w')
      | (Inr (affected, err), w') \<Rightarrow>
          (if affected \<noteq> 1 then
             (Some (RepoError ErrEntityNotFound (map_option Driver err)
                      (NamespaceFromContext ctx)), w')
           else (None, w')))"

text \<open>
  \<open>Clear\<close>: \<open>MustBeginTx\<close> and \<open>MustExec\<close> panic on an error; only a failed commit is
  returned, wrapped.
\<close>

definition Clear ::
  "'db Repo \<Rightarrow> Context \<Rightarrow> 'db world \<Rightarrow> go_error option outcome \<times> 'db world" where
  "Clear r ctx w =
     (case BeginTx r w of
        (Some err, w1) \<Rightarrow> (Panics, w1)
      | (None, w1) \<Rightarrow>
          (case TxExec r (DeleteAll (TableName (config r))) w1 of
             (Some err, w2) \<Rightarrow> (Panics, w2)
           | (None, w2) \<Rightarrow>
               (case Commit r w2 of
                  (Some err, w3) \<Rightarrow>
                    (Returns (Some (RepoError ErrCouldNotClearDB (Some (Driver err))
                                      (NamespaceFromContext ctx))), w3)
                | (None, w3) \<Rightarrow> (Returns None, w3))))"

section \<open>The repository on go-pg\<close>

text \<open>
  The second implementation of the same contract calls an object-relational
  client. The table is the one the client derives from the entity's type, so the
  configuration names none. Modelled from the spec: the client is the opaque
  Backend; each field is one of the calls the repository makes, with the result
  and the error it returns (either may be nil). \<open>orm.Result.RowsAffected()\<close>
  returns a count.
\<close>

type_synonym orm_Result = int

text \<open>
  \<open>FindAll\<close> of this implementation hands the rows to a callback whose argument
  has the type \<open>X\<close> of the file, a struct that embeds a model; the client scans
  each row into a value of that type.
\<close>

datatype X = X Model

record 'db pg_DB =
  orm_Select :: "Model \<Rightarrow> uuid \<Rightarrow> 'db \<Rightarrow> (Model \<times> driver_error option) \<times> 'db"
  orm_ForEach :: "Model \<Rightarrow> 'db \<Rightarrow> (X list \<times> driver_error option) \<times> 'db"
  orm_Update :: "Model \<Rightarrow> uuid \<Rightarrow> 'db \<Rightarrow> (orm_Result option \<times> driver_error option) \<times> 'db"
  orm_Insert :: "Model \<Rightarrow> 'db \<Rightarrow> (orm_Result option \<times> driver_error option) \<times> 'db"
  orm_Delete :: "Model \<Rightarrow> uuid \<Rightarrow> 'db \<Rightarrow> (orm_Result option \<times> driver_error option) \<times> 'db"
  orm_DeletePK :: "Model \<Rightarrow> 'db \<Rightarrow> (orm_Result option \<times> driver_error option) \<times> 'db"

datatype orm_call =
    SelectCall uuid | ForEachCall | UpdateCall uuid | InsertCall | DeleteCall uuid
  | DeletePKCall

record 'db orm_world =
  orm_database :: 'db
  orm_journal :: "orm_call list"

record Config_gopg =
  Addr :: string
  Database :: string
  User :: string
  Password :: string

record 'db Repo_gopg =
  client_gopg :: "'db pg_DB"
  config_gopg :: Config_gopg
  factoryFn_gopg :: "(unit \<Rightarrow> Model) option"

definition called ::
  "orm_call \<Rightarrow> ('db \<Rightarrow> 'a \<times> 'db) \<Rightarrow> 'db orm_world \<Rightarrow> 'a \<times> 'db orm_world" where
  "called c f w =
     (case f (orm_database w) of
        (res, d) \<Rightarrow> (res, \<lparr>orm_database = d, orm_journal = orm_journal w @ [c]\<rparr>))"

definition NewRepoWithClient_gopg ::
  "Config_gopg \<Rightarrow> 'db pg_DB option \<Rightarrow> go_error + 'db Repo_gopg" where
  "NewRepoWithClient_gopg cfg cl =
     (case cl of
        None \<Rightarrow> Inl ErrNoDBClient
      | Some c \<Rightarrow> Inr \<lparr>client_gopg = c, config_gopg = cfg, factoryFn_gopg = None\<rparr>)"

definition Find_gopg ::
  "'db Repo_gopg \<Rightarrow> Context \<Rightarrow> uuid \<Rightarrow> 'db orm_world \<Rightarrow> (go_error + Model) \<times> 'db orm_world" where
  "Find_gopg r ctx i w =
     (let ns = NamespaceFromContext ctx in
      case factoryFn_gopg r of
        None \<Rightarrow> (Inl (RepoError ErrModelNotSet None ns), w)
      | Some f \<Rightarrow>
          (let entity = f () in
           case called (SelectCall i) (orm_Select (client_gopg r) entity i) w of
             ((entity', Some err), w') \<Rightarrow>
               (Inl (RepoError ErrEntityNotFound (Some (Driver err))
                      (NamespaceFromContext ctx)), w')
           | ((entity', None), w') \<Rightarrow> (Inr entity', w')))"

text \<open>
  \<open>FindAll\<close>: the entity of the factory only names the model of the query. The
  callback appends each value of type \<open>X\<close> it is given and never fails.
\<close>

definition FindAll_gopg ::
  "'db Repo_gopg \<Rightarrow> Context \<Rightarrow> 'db orm_world \<Rightarrow> (go_error + X list) \<times> 'db orm_world" where
  "FindAll_gopg r ctx w =
     (let ns = NamespaceFromContext ctx in
      case factoryFn_gopg r of
        None \<Rightarrow> (Inl (RepoError ErrModelNotSet None ns), w)
      | Some f \<Rightarrow>
          (let entity = f () in
           case called ForEachCall (orm_ForEach (client_gopg r) entity) w of
             ((result, Some err), w') \<Rightarrow>
               (Inl (RepoError ErrEntityNotFound (Some (Driver err)) ns), w')
           | ((result, None), w') \<Rightarrow> (Inr result, w')))"

definition FindWithFilter_gopg ::
  "'db Repo_gopg \<Rightarrow> Context \<Rightarrow> string \<Rightarrow> sqlval list \<Rightarrow> 'db orm_world \<Rightarrow>
     (go_error + Model list) \<times> 'db orm_world" where
  "FindWithFilter_gopg r ctx expr args w =
     (case factoryFn_gopg r of
        None \<Rightarrow> (Inl (RepoError ErrModelNotSet None (NamespaceFromContext ctx)), w)
      | Some f \<Rightarrow> (Inr [], w))"

definition FindWithFilterUsingIndex_gopg ::
  "'db Repo_gopg \<Rightarrow> Context \<Rightarrow> IndexInput \<Rightarrow> string \<Rightarrow> sqlval list \<Rightarrow> 'db orm_world \<Rightarrow>
     (go_error + Model list) \<times> 'db orm_world" where
  "FindWithFilterUsingIndex_gopg r ctx indexInput filterQuery filterArgs w =
     (case factoryFn_gopg r of
        None \<Rightarrow> (Inl (RepoError ErrModelNotSet None (NamespaceFromContext ctx)), w)
      | Some f \<Rightarrow> (Inr [], w))"

text \<open>
  \<open>Save\<close> here selects the stored entity first (the error of the select is dropped),
  updates when the identifiers agree and inserts otherwise. The factory is called
  unguarded: a nil factory panics.
\<close>

definition Save_gopg ::
  "'db Repo_gopg \<Rightarrow> Context \<Rightarrow> Model \<Rightarrow> 'db orm_world \<Rightarrow>
     go_error option outcome \<times> 'db orm_world" where
  "Save_gopg r ctx entity w =
     (if EntityID entity = uuid_Nil then
        (Returns (Some (RepoError ErrCouldNotSaveEntity (Some ErrMissingEntityID)
                          (NamespaceFromContext ctx))), w)
      else
        (case factoryFn_gopg r of
           None \<Rightarrow> (Panics, w)
         | Some f \<Rightarrow>
             (case called (SelectCall (EntityID entity))
                     (orm_Select (client_gopg r) (f ()) (EntityID entity)) w of
                ((fromDB, ignored), w1) \<Rightarrow>
                  if EntityID fromDB = EntityID entity then
                    (case called (UpdateCall (EntityID entity))
                            (orm_Update (client_gopg r) entity (EntityID entity)) w1 of
                       ((result, Some err), w2) \<Rightarrow>
                         (Returns (Some (RepoError ErrCouldNotSaveEntity (Some (Driver err))
                                           (NamespaceFromContext ctx))), w2)
                     | ((result, None), w2) \<Rightarrow>
                         (case result of
                            None \<Rightarrow> (Returns None, w2)
                          | Some res \<Rightarrow>
                              if res \<noteq> 1 then
                                (Returns (Some (RepoError ErrCouldNotSaveEntity None
                                                  (NamespaceFromContext ctx))), w2)
                              else (Returns None, w2)))
                  else
                    (case called InsertCall (orm_Insert (client_gopg r) entity) w1 of
                       ((result, Some err), w2) \<Rightarrow>
                         (Returns (Some (RepoError ErrCouldNotSaveEntity (Some (Driver err))
                                           (NamespaceFromContext ctx))), w2)
                     | ((result, None), w2) \<Rightarrow> (Returns None, w2)))))"

definition Remove_gopg ::
  "'db Repo_gopg \<Rightarrow> Context \<Rightarrow> uuid \<Rightarrow> 'db orm_world \<Rightarrow> go_error option \<times> 'db orm_world" where
  "Remove_gopg r ctx i w =
     (case factoryFn_gopg r of
        None \<Rightarrow> (Some (RepoError ErrModelNotSet None (NamespaceFromContext ctx)), w)
      | Some f \<Rightarrow>
          (let entity = f () in
           case called (DeleteCall i) (orm_Delete (client_gopg r) entity i) w of
             ((res, Some err), w') \<Rightarrow>
               (Some (RepoError ErrCouldNotRemoveEntity (Some (Driver err))
                        (NamespaceFromContext ctx)), w')
           | ((res, None), w') \<Rightarrow>
               (case res of
                  None \<Rightarrow> (None, w')
                | Some n \<Rightarrow>
                    if n \<noteq> 1 then
                      (Some (RepoError ErrEntityNotFound None (NamespaceFromContext ctx)), w')
                    else (None, w'))))"

definition Clear_gopg ::
  "'db Repo_gopg \<Rightarrow> Context \<Rightarrow> 'db orm_world \<Rightarrow> go_error option outcome \<times> 'db orm_world" where
  "Clear_gopg r ctx w =
     (case factoryFn_gopg r of
        None \<Rightarrow> (Panics, w)
      | Some f \<Rightarrow>
          (let entity = f () in
           case called DeletePKCall (orm_DeletePK (client_gopg r) entity) w of
             ((res, Some err), w') \<Rightarrow>
               (Returns (Some (RepoError ErrCouldNotClearDB (Some (Driver err))
                                 (NamespaceFromContext ctx))), w')
           | ((res, None), w') \<Rightarrow> (Returns None, w')))"

section \<open>A reference database\<close>

text \<open>
  Modelled from the spec: the Backend is outside the repository's code. The
  reference database holds tables of the schema the integration test creates
  (\<open>id uuid primary key, version integer, content text, created_at timestamp\<close>):
  a table is a list of rows in storage order, each an identifier with its three
  nullable cells. It stores what it is given and gives it back unchanged. A lost
  connection makes every call fail.
\<close>

record cells =
  version_cell :: "int option"
  content_cell :: "string option"
  created_at_cell :: "timestamp option"

type_synonym table = "(uuid \<times> cells) list"

record pg =
  relations :: "string \<Rightarrow> table option"
  conn_lost :: bool
  open_tx :: "(string \<Rightarrow> table option) option"

definition null_cells :: cells where
  "null_cells = \<lparr>version_cell = None, content_cell = None, created_at_cell = None\<rparr>"

definition relation :: "pg \<Rightarrow> string \<Rightarrow> driver_error + table" where
  "relation s t =
     (if conn_lost s then Inl ErrConnDone
      else case relations s t of None \<Rightarrow> Inl (UndefinedTable t) | Some tbl \<Rightarrow> Inr tbl)"

text \<open>The columns of a stored row as \<open>SELECT *\<close> returns them.\<close>

definition row_of :: "uuid \<Rightarrow> cells \<Rightarrow> row" where
  "row_of i c =
     [(''id'', VUuid i),
      (''version'', case version_cell c of None \<Rightarrow> VNull | Some n \<Rightarrow> VInt n),
      (''content'', case content_cell c of None \<Rightarrow> VNull | Some x \<Rightarrow> VText x),
      (''created_at'', case created_at_cell c of None \<Rightarrow> VNull | Some x \<Rightarrow> VTime x)]"

text \<open>
  Scanning one column into the field of a \<open>Model\<close> with that \<open>db\<close> tag: a column
  without a field is an error, and so is NULL for an \<open>int\<close>, a \<open>string\<close> or a
  \<open>time.Time\<close>; \<open>uuid.UUID\<close> scans NULL as no change.
\<close>

definition scan_column :: "string \<times> sqlval \<Rightarrow> Model \<Rightarrow> driver_error + Model" where
  "scan_column cv m =
     (case cv of (c, v) \<Rightarrow>
        if c = ''id'' then
          (case v of VUuid u \<Rightarrow> Inr (m\<lparr>ID := u\<rparr>) | VNull \<Rightarrow> Inr m
           | _ \<Rightarrow> Inl (DatatypeMismatch c))
        else if c = ''version'' then
          (case v of VInt n \<Rightarrow> Inr (m\<lparr>Version := n\<rparr>) | VNull \<Rightarrow> Inl (NullConversion c)
           | _ \<Rightarrow> Inl (DatatypeMismatch c))
        else if c = ''content'' then
          (case v of VText x \<Rightarrow> Inr (m\<lparr>Content := x\<rparr>) | VNull \<Rightarrow> Inl (NullConversion c)
           | _ \<Rightarrow> Inl (DatatypeMismatch c))
        else if c = ''created_at'' then
          (case v of VTime x \<Rightarrow> Inr (m\<lparr>CreatedAt := x\<rparr>) | VNull \<Rightarrow> Inl (NullConversion c)
           | _ \<Rightarrow> Inl (DatatypeMismatch c))
        else Inl (MissingDestination c))"

fun pg_StructScan :: "row \<Rightarrow> Model \<Rightarrow> driver_error + Model" where
  "pg_StructScan [] m = Inr m"
| "pg_StructScan (cv # cvs) m =
     (case scan_column cv m of Inl e \<Rightarrow> Inl e | Inr m' \<Rightarrow> pg_StructScan cvs m')"

text \<open>A tuple under construction: the identifier may still be missing.\<close>

type_synonym tuple = "uuid option \<times> cells"

definition assign :: "string \<Rightarrow> sqlval \<Rightarrow> tuple \<Rightarrow> driver_error + tuple" where
  "assign c v tp =
     (case tp of (i, cs) \<Rightarrow>
        if c = ''id'' then
          (case v of VUuid u \<Rightarrow> Inr (Some u, cs) | VNull \<Rightarrow> Inr (None, cs)
           | _ \<Rightarrow> Inl (DatatypeMismatch c))
        else if c = ''version'' then
          (case v of VInt n \<Rightarrow> Inr (i, cs\<lparr>version_cell := Some n\<rparr>)
           | VNull \<Rightarrow> Inr (i, cs\<lparr>version_cell := None\<rparr>)
           | _ \<Rightarrow> Inl (DatatypeMismatch c))
        else if c = ''content'' then
          (case v of VText x \<Rightarrow> Inr (i, cs\<lparr>content_cell := Some x\<rparr>)
           | VNull \<Rightarrow> Inr (i, cs\<lparr>content_cell := None\<rparr>)
           | _ \<Rightarrow> Inl (DatatypeMismatch c))
        else if c = ''created_at'' then
          (case v of VTime x \<Rightarrow> Inr (i, cs\<lparr>created_at_cell := Some x\<rparr>)
           | VNull \<Rightarrow> Inr (i, cs\<lparr>created_at_cell := None\<rparr>)
           | _ \<Rightarrow> Inl (DatatypeMismatch c))
        else Inl (UndefinedColumn c))"

definition column :: "string \<Rightarrow> tuple \<Rightarrow> driver_error + sqlval" where
  "column c tp =
     (case tp of (i, cs) \<Rightarrow>
        if c = ''id'' then Inr (case i of None \<Rightarrow> VNull | Some u \<Rightarrow> VUuid u)
        else if c = ''version'' then
          Inr (case version_cell cs of None \<Rightarrow> VNull | Some n \<Rightarrow> VInt n)
        else if c = ''content'' then
          Inr (case content_cell cs of None \<Rightarrow> VNull | Some x \<Rightarrow> VText x)
        else if c = ''created_at'' then
          Inr (case created_at_cell cs of None \<Rightarrow> VNull | Some x \<Rightarrow> VTime x)
        else Inl (UndefinedColumn c))"

text \<open>\<open>INSERT INTO t (cols) VALUES (vals)\<close>: the proposed tuple.\<close>

fun proposed :: "string list \<Rightarrow> sqlval list \<Rightarrow> tuple \<Rightarrow> driver_error + tuple" where
  "proposed [] [] tp = Inr tp"
| "proposed (c # cs) (v # vs) tp =
     (case assign c v tp of Inl e \<Rightarrow> Inl e | Inr tp' \<Rightarrow> proposed cs vs tp')"
| "proposed _ _ tp = Inl UnsupportedStatement"

text \<open>\<open>DO UPDATE SET c = EXCLUDED.e, ...\<close> on the existing tuple.\<close>

fun do_update :: "(string \<times> string) list \<Rightarrow> tuple \<Rightarrow> tuple \<Rightarrow> driver_error + tuple" where
  "do_update [] excl tp = Inr tp"
| "do_update ((c, e) # sets) excl tp =
     (case column e excl of
        Inl err \<Rightarrow> Inl err
      | Inr v \<Rightarrow> (case assign c v tp of Inl err \<Rightarrow> Inl err | Inr tp' \<Rightarrow> do_update sets excl tp'))"

fun bind_values :: "string list \<Rightarrow> (string \<times> sqlval) list \<Rightarrow> driver_error + sqlval list" where
  "bind_values [] vals = Inr []"
| "bind_values (b # bs) vals =
     (case map_of vals b of
        None \<Rightarrow> Inl (MissingBindValue b)
      | Some v \<Rightarrow> (case bind_values bs vals of Inl e \<Rightarrow> Inl e | Inr vs \<Rightarrow> Inr (v # vs)))"

definition upsert ::
  "string list \<Rightarrow> string list \<Rightarrow> (string \<times> string) list \<Rightarrow> (string \<times> sqlval) list \<Rightarrow>
     table \<Rightarrow> driver_error + table" where
  "upsert cols binds sets vals tbl =
     (case bind_values binds vals of
        Inl e \<Rightarrow> Inl e
      | Inr vs \<Rightarrow>
          (case proposed cols vs (None, null_cells) of
             Inl e \<Rightarrow> Inl e
           | Inr (None, cs) \<Rightarrow> Inl (NotNullViolation ''id'')
           | Inr (Some i, cs) \<Rightarrow>
               (case map_of tbl i of
                  None \<Rightarrow> Inr (tbl @ [(i, cs)])
                | Some old \<Rightarrow>
                    (case do_update sets (Some i, cs) (Some i, old) of
                       Inl e \<Rightarrow> Inl e
                     | Inr (j, new) \<Rightarrow>
                         if j = Some i then Inr (AList.update i new tbl)
                         else Inl UnsupportedStatement))))"

definition pg_GetContext ::
  "Model \<Rightarrow> query \<Rightarrow> sqlval list \<Rightarrow> pg \<Rightarrow> (driver_error + Model) \<times> pg" where
  "pg_GetContext dest q args s =
     (case (q, args) of
        (SelectWhereId t, [VUuid i]) \<Rightarrow>
          (case relation s t of
             Inl e \<Rightarrow> (Inl e, s)
           | Inr tbl \<Rightarrow>
               (case map_of tbl i of
                  None \<Rightarrow> (Inl ErrNoRows, s)
                | Some c \<Rightarrow> (pg_StructScan (row_of i c) dest, s)))
      | _ \<Rightarrow> (Inl UnsupportedStatement, s))"

definition pg_QueryxContext :: "query \<Rightarrow> pg \<Rightarrow> (driver_error + row list) \<times> pg" where
  "pg_QueryxContext q s =
     (case q of
        SelectAll t \<Rightarrow>
          (case relation s t of
             Inl e \<Rightarrow> (Inl e, s)
           | Inr tbl \<Rightarrow> (Inr (map (\<lambda>(i, c). row_of i c) tbl), s))
      | _ \<Rightarrow> (Inl UnsupportedStatement, s))"

definition pg_NamedExecContext ::
  "query \<Rightarrow> (string \<times> sqlval) list \<Rightarrow> pg \<Rightarrow> (driver_error + sql_Result) \<times> pg" where
  "pg_NamedExecContext q vals s =
     (case q of
        InsertOnConflictUpdate t cols binds sets \<Rightarrow>
          (case relation s t of
             Inl e \<Rightarrow> (Inl e, s)
           | Inr tbl \<Rightarrow>
               (case upsert cols binds sets vals tbl of
                  Inl e \<Rightarrow> (Inl e, s)
                | Inr tbl' \<Rightarrow>
                    (Inr (1, None), s\<lparr>relations := (relations s)(t := Some tbl')\<rparr>)))
      | _ \<Rightarrow> (Inl UnsupportedStatement, s))"

definition pg_ExecContext ::
  "query \<Rightarrow> sqlval list \<Rightarrow> pg \<Rightarrow> (driver_error + sql_Result) \<times> pg" where
  "pg_ExecContext q args s =
     (case (q, args) of
        (DeleteWhereId t, [VUuid i]) \<Rightarrow>
          (case relation s t of
             Inl e \<Rightarrow> (Inl e, s)
           | Inr tbl \<Rightarrow>
               (Inr (int (length (filter (\<lambda>p. fst p = i) tbl)), None),
                s\<lparr>relations := (relations s)(t := Some (AList.delete i tbl))\<rparr>))
      | _ \<Rightarrow> (Inl UnsupportedStatement, s))"

definition pg_BeginTx :: "pg \<Rightarrow> driver_error option \<times> pg" where
  "pg_BeginTx s =
     (if conn_lost s then (Some ErrConnDone, s)
      else (None, s\<lparr>open_tx := Some (relations s)\<rparr>))"

definition pg_TxExec :: "query \<Rightarrow> pg \<Rightarrow> driver_error option \<times> pg" where
  "pg_TxExec q s =
     (case q of
        DeleteAll t \<Rightarrow>
          (if conn_lost s then (Some ErrConnDone, s)
           else case open_tx s of
                  None \<Rightarrow> (Some ErrTxDone, s)
                | Some rels \<Rightarrow>
                    (case rels t of
                       None \<Rightarrow> (Some (UndefinedTable t), s)
                     | Some tbl \<Rightarrow> (None, s\<lparr>open_tx := Some (rels(t := Some []))\<rparr>)))
      | _ \<Rightarrow> (Some UnsupportedStatement, s))"

definition pg_Commit :: "pg \<Rightarrow> driver_error option \<times> pg" where
  "pg_Commit s =
     (if conn_lost s then (Some ErrConnDone, s\<lparr>open_tx := None\<rparr>)
      else case open_tx s of
             None \<Rightarrow> (Some ErrTxDone, s)
           | Some rels \<Rightarrow> (None, s\<lparr>relations := rels, open_tx := None\<rparr>))"

definition pg_client :: "pg sqlx_DB" where
  "pg_client =
     \<lparr>drv_GetContext = pg_GetContext,
      drv_QueryxContext = pg_QueryxContext,
      drv_StructScan = pg_StructScan,
      drv_NamedExecContext = pg_NamedExecContext,
      drv_ExecContext = pg_ExecContext,
      drv_BeginTx = pg_BeginTx,
      drv_TxExec = pg_TxExec,
      drv_Commit = pg_Commit\<rparr>"

text \<open>The entity a stored row scans into, and the cells an entity is stored as.\<close>

definition cells_of :: "Model \<Rightarrow> cells" where
  "cells_of m =
     \<lparr>version_cell = Some (Version m), content_cell = Some (Content m),
      created_at_cell = Some (CreatedAt m)\<rparr>"

definition stored :: "Model \<Rightarrow> uuid \<times> cells" where
  "stored m = (ID m, cells_of m)"

text \<open>The table after \<open>Save\<close> wrote an entity: a new last row, or the row replaced in place.\<close>

definition upserted :: "Model \<Rightarrow> table \<Rightarrow> table" where
  "upserted e tbl =
     (case map_of tbl (ID e) of
        None \<Rightarrow> tbl @ [stored e]
      | Some old \<Rightarrow> AList.update (ID e) (cells_of e) tbl)"

section \<open>Notions the properties are stated with\<close>

text \<open>A call of the journal targets a table when it is a statement on that table.\<close>

fun targets :: "string \<Rightarrow> backend_call \<Rightarrow> bool" where
  "targets t (Statement q) = (query_table q = t)"
| "targets t Begin = True"
| "targets t CommitTx = True"

text \<open>
  The calls an operation added to the journal all target the table \<open>t\<close>: the old
  journal is a prefix of the new one and every call after it targets \<open>t\<close>.
\<close>

definition calls_target :: "string \<Rightarrow> 'db world \<Rightarrow> 'db world \<Rightarrow> bool" where
  "calls_target t w w' =
     (take (length (journal w)) (journal w') = journal w \<and>
      list_all (targets t) (drop (length (journal w)) (journal w')))"

text \<open>An error with the diagnostic namespace of its envelope blanked.\<close>

fun forget_namespace :: "go_error \<Rightarrow> go_error" where
  "forget_namespace (RepoError k c ns) = RepoError k c []"
| "forget_namespace e = e"

section \<open>The set-up of the integration test\<close>

text \<open>
  The table \<open>models\<close>, empty; the factory \<open>func() eh.Entity { return &mocks.Model{} }\<close>;
  the entities of the acceptance test, with small numbers for the random
  identifiers.
\<close>

definition zero_Model :: Model where
  "zero_Model = \<lparr>ID = 0, Version = 0, Content = [], CreatedAt = 0\<rparr>"

definition test_factory :: "unit \<Rightarrow> Model" where
  "test_factory = (\<lambda>u. zero_Model)"

definition test_config :: Config where
  "test_config = \<lparr>TableName = ''models'', dbName = None\<rparr>"

definition new_repo :: "pg Repo" where
  "new_repo =
     \<lparr>client = pg_client,
      config = test_config\<lparr>dbName :=
        Some (\<lambda>ctx. TableName test_config @ ''_'' @ NamespaceFromContext ctx)\<rparr>,
      factoryFn = None\<rparr>"

definition test_repo :: "pg Repo" where
  "test_repo = SetEntityFactory new_repo (Some test_factory)"

definition empty_db :: pg where
  "empty_db =
     \<lparr>relations = (\<lambda>t. if t = ''models'' then Some [] else None),
      conn_lost = False, open_tx = None\<rparr>"

definition start :: "pg world" where
  "start = \<lparr>database = empty_db, journal = []\<rparr>"

definition background :: Context where
  "background = \<lparr>ctx_namespace = ''default''\<rparr>"

definition customNamespaceCtx :: Context where
  "customNamespaceCtx = \<lparr>ctx_namespace = ''ns''\<rparr>"

definition entityMissingID :: Model where
  "entityMissingID = \<lparr>ID = 0, Version = 0, Content = ''entity1'', CreatedAt = 1257894000\<rparr>"

definition entity1 :: Model where
  "entity1 = \<lparr>ID = 1, Version = 0, Content = ''entity1'', CreatedAt = 1257894000\<rparr>"

definition entity1Alt :: Model where
  "entity1Alt = \<lparr>ID = 1, Version = 0, Content = ''entity1Alt'', CreatedAt = 1257894000\<rparr>"

definition entity2 :: Model where
  "entity2 = \<lparr>ID = 2, Version = 0, Content = ''entity2'', CreatedAt = 1257894000\<rparr>"

text \<open>
  A database whose table \<open>models\<close> holds one row written by another client with
  only the identifier given, so that its other columns are NULL.
\<close>

definition null_row_db :: pg where
  "null_row_db =
     \<lparr>relations = (\<lambda>t. if t = ''models'' then Some [(3, null_cells)] else None),
      conn_lost = False, open_tx = None\<rparr>"




text \<open>A go-pg client whose every call fails with a lost connection.\<close>

definition failing_orm :: "unit pg_DB" where
  "failing_orm =
     \<lparr>orm_Select = (\<lambda>dest i d. ((dest, Some ErrConnDone), d)),
      orm_ForEach = (\<lambda>dest d. (([], Some ErrConnDone), d)),
      orm_Update = (\<lambda>e i d. ((None, Some ErrConnDone), d)),
      orm_Insert = (\<lambda>e d. ((None, Some ErrConnDone), d)),
      orm_Delete = (\<lambda>e i d. ((None, Some ErrConnDone), d)),
      orm_DeletePK = (\<lambda>e d. ((None, Some ErrConnDone), d))\<rparr>"

definition orm_repo :: "unit Repo_gopg" where
  "orm_repo =
     \<lparr>client_gopg = failing_orm,
      config_gopg = \<lparr>Addr = [], Database = [], User = [], Password = []\<rparr>,
      factoryFn_gopg = Some test_factory\<rparr>"




definition orm_start :: "unit orm_world" where
  "orm_start = \<lparr>orm_database = (), orm_journal = []\<rparr>"

section \<open>Facts about the client calls and the reference database\<close>

lemmas calls = GetContext_def QueryxContext_def NamedExecContext_def ExecContext_def
  BeginTx_def TxExec_def Commit_def

lemma scan_stored: "pg_StructScan (row_of (ID e) (cells_of e)) m = Inr e"
  by (simp add: row_of_def cells_of_def scan_column_def)

lemma bind_values_FieldMap: "bind_values (map fst (FieldMap e)) (FieldMap e) = Inr (map snd (FieldMap e))"
  by (simp add: FieldMap_def)

lemma proposed_FieldMap: "proposed (map fst (FieldMap e)) (map snd (FieldMap e)) (None, null_cells) = Inr (Some (ID e), cells_of e)"
  by (simp add: FieldMap_def assign_def null_cells_def cells_of_def)

lemma do_update_FieldMap: "do_update (map ((\<lambda>f. (f, f)) \<circ> fst) (FieldMap e)) (Some (ID e), cells_of e) (Some (ID e), old)
   = Inr (Some (ID e), cells_of e)"
  by (simp add: FieldMap_def assign_def column_def cells_of_def)

lemma upsert_save: "save_statement t e = (InsertOnConflictUpdate t' cols binds sets, vals) \<Longrightarrow>
   t' = t \<and> upsert cols binds sets vals tbl = Inr (case map_of tbl (ID e) of None \<Rightarrow> tbl @ [stored e] | Some old \<Rightarrow> AList.update (ID e) (cells_of e) tbl)"
  by (auto simp: save_statement_def Let_def upsert_def bind_values_FieldMap proposed_FieldMap do_update_FieldMap stored_def split: option.splits)


lemma map_of_upserted: "map_of (upserted e tbl) (ID e) = Some (cells_of e)"
  by (auto simp: upserted_def stored_def update_conv' map_add_def split: option.splits)

lemma Save_on_pg:
  assumes "client r = pg_client" and "EntityID e \<noteq> uuid_Nil"
  shows "Save r ctx e w =
     (case relation (database w) (TableName (config r)) of
        Inl err \<Rightarrow> (Some (RepoError ErrCouldNotSaveEntity (Some (Driver err)) (NamespaceFromContext ctx)),
                     \<lparr>database = database w, journal = journal w @ [Statement (fst (save_statement (TableName (config r)) e))]\<rparr>)
      | Inr tbl \<Rightarrow> (None,
           \<lparr>database = (database w)\<lparr>relations := (relations (database w))(TableName (config r) := Some (upserted e tbl))\<rparr>,
            journal = journal w @ [Statement (fst (save_statement (TableName (config r)) e))]\<rparr>))"
proof -
  obtain q vals where qv: "save_statement (TableName (config r)) e = (q, vals)"
    by (cases "save_statement (TableName (config r)) e")
  then obtain cols binds sets where q: "q = InsertOnConflictUpdate (TableName (config r)) cols binds sets"
    by (auto simp: save_statement_def Let_def)
  have up: "upsert cols binds sets vals tbl = Inr (upserted e tbl)" for tbl
    using upsert_save[of "TableName (config r)" e "TableName (config r)" cols binds sets vals tbl] qv q
    by (simp add: upserted_def)
  show ?thesis
    using assms
    by (simp add: Save_def qv q NamedExecContext_def pg_client_def pg_NamedExecContext_def up
        split: sum.splits)
qed

lemma Find_on_pg:
  assumes "client r = pg_client" and "factoryFn r = Some f"
  shows "Find r ctx i w =
     (case relation (database w) (TableName (config r)) of
        Inl err \<Rightarrow> Inl (RepoError ErrEntityNotFound (Some (Driver err)) (NamespaceFromContext ctx))
      | Inr tbl \<Rightarrow>
          (case map_of tbl i of
             None \<Rightarrow> Inl (RepoError ErrEntityNotFound (Some (Driver ErrNoRows)) (NamespaceFromContext ctx))
           | Some c \<Rightarrow>
               (case pg_StructScan (row_of i c) (f ()) of
                  Inl err \<Rightarrow> Inl (RepoError ErrEntityNotFound (Some (Driver err)) (NamespaceFromContext ctx))
                | Inr m \<Rightarrow> Inr m)),
      \<lparr>database = database w, journal = journal w @ [Statement (SelectWhereId (TableName (config r)))]\<rparr>)"
  using assms
  by (simp add: Find_def Let_def GetContext_def pg_client_def pg_GetContext_def
      split: sum.splits option.splits)



lemma FindAll_on_pg:
  assumes "client r = pg_client" and "factoryFn r = Some f"
  shows "FindAll r ctx w =
     (case relation (database w) (TableName (config r)) of
        Inl err \<Rightarrow> Inl (RepoError ErrEntityNotFound (Some (Driver err)) (NamespaceFromContext ctx))
      | Inr tbl \<Rightarrow>
          (case scan_rows r f (map (\<lambda>(i, c). row_of i c) tbl) (f ()) [] of
             Inl err \<Rightarrow> Inl err | Inr res \<Rightarrow> Inr res),
      \<lparr>database = database w, journal = journal w @ [Statement (SelectAll (TableName (config r)))]\<rparr>)"
  using assms
  by (simp add: FindAll_def Let_def QueryxContext_def pg_client_def pg_QueryxContext_def
      split: sum.splits option.splits)


lemma Remove_on_pg:
  assumes "client r = pg_client"
  shows "Remove r ctx i w =
     (case relation (database w) (TableName (config r)) of
        Inl err \<Rightarrow> (Some (RepoError ErrCouldNotRemoveEntity (Some (Driver err)) (NamespaceFromContext ctx)),
              \<lparr>database = database w, journal = journal w @ [Statement (DeleteWhereId (TableName (config r)))]\<rparr>)
      | Inr tbl \<Rightarrow>
          (if length (filter (\<lambda>p. fst p = i) tbl) = 1 then None
           else Some (RepoError ErrEntityNotFound None (NamespaceFromContext ctx)),
           \<lparr>database = (database w)\<lparr>relations := (relations (database w))(TableName (config r) := Some (AList.delete i tbl))\<rparr>,
            journal = journal w @ [Statement (DeleteWhereId (TableName (config r)))]\<rparr>))"
  using assms
  by (simp add: Remove_def ExecContext_def pg_client_def pg_ExecContext_def split: sum.splits)



lemma entity1_statement:
  "save_statement ''models'' entity1 =
     (InsertOnConflictUpdate ''models'' [''id'', ''version'', ''content'', ''created_at'']
        [''id'', ''version'', ''content'', ''created_at'']
        [(''id'', ''id''), (''version'', ''version''), (''content'', ''content''),
         (''created_at'', ''created_at'')],
      [(''id'', VUuid 1), (''version'', VInt 0), (''content'', VText ''entity1''),
       (''created_at'', VTime 1257894000)])"
  by (simp add: save_statement_def FieldMap_def entity1_def Let_def)

lemma sql_text_entity1:
  "sql_text (fst (save_statement ''models'' entity1)) =
    ''INSERT INTO models (id, version, content, created_at) VALUES (:id, :version, :content, :created_at) ON CONFLICT (id) DO UPDATE SET id = EXCLUDED.id, version = EXCLUDED.version, content = EXCLUDED.content, created_at = EXCLUDED.created_at;''"
  by (simp add: entity1_statement)




lemma Remove_gopg_result:
  assumes "factoryFn_gopg g = Some f"
  shows "(\<forall>n d. orm_Delete (client_gopg g) (f ()) i (orm_database gw) = ((Some n, None), d) \<longrightarrow>
            fst (Remove_gopg g ctx i gw) =
              (if n = 1 then None
               else Some (RepoError ErrEntityNotFound None (NamespaceFromContext ctx))))
       \<and> (\<forall>res err d. orm_Delete (client_gopg g) (f ()) i (orm_database gw) = ((res, Some err), d) \<longrightarrow>
            fst (Remove_gopg g ctx i gw) =
              Some (RepoError ErrCouldNotRemoveEntity (Some (Driver err))
                      (NamespaceFromContext ctx)))"
  using assms by (auto simp: Remove_gopg_def called_def Let_def split: prod.splits option.splits)

lemma test_repo_simps:
  "client test_repo = pg_client" "TableName (config test_repo) = ''models''"
  "factoryFn test_repo = Some test_factory" "factoryFn new_repo = None"
  "client new_repo = pg_client" "TableName (config new_repo) = ''models''"
  by (simp_all add: test_repo_def new_repo_def SetEntityFactory_def test_config_def)

lemma entity_ids:
  "EntityID entity1 \<noteq> uuid_Nil" "EntityID entity2 \<noteq> uuid_Nil"
  "EntityID entity1Alt \<noteq> uuid_Nil" "EntityID entity1 = 1" "EntityID entity2 = 2"
  "EntityID entity1Alt = 1" "ID entity1 = 1" "ID entity2 = 2" "ID entity1Alt = 1"
  by (simp_all add: EntityID_def entity1_def entity2_def entity1Alt_def uuid_Nil_def)

lemma relation_start: "relation (database start) ''models'' = Inr []"
  by (simp add: relation_def start_def empty_db_def)

lemma Save_entity1_start:
  "Save test_repo ctx entity1 start =
     (None, \<lparr>database = empty_db\<lparr>relations := (relations empty_db)(''models'' := Some [stored entity1])\<rparr>,
             journal = [Statement (fst (save_statement ''models'' entity1))]\<rparr>)"
proof -
  have s: "database start = empty_db" "journal start = []"
    by (simp_all add: start_def)
  show ?thesis
    using relation_start
    by (simp add: Save_on_pg [OF test_repo_simps(1) entity_ids(1)] test_repo_simps
        entity_ids(7) upserted_def s)
qed

lemma Find_gopg_result:
  "(factoryFn_gopg g = None \<longrightarrow>
      Find_gopg g ctx i gw = (Inl (RepoError ErrModelNotSet None (NamespaceFromContext ctx)), gw))
   \<and> (\<forall>f m err d. factoryFn_gopg g = Some f
          \<and> orm_Select (client_gopg g) (f ()) i (orm_database gw) = ((m, Some err), d) \<longrightarrow>
        fst (Find_gopg g ctx i gw) =
          Inl (RepoError ErrEntityNotFound (Some (Driver err)) (NamespaceFromContext ctx)))
   \<and> (\<forall>f m d. factoryFn_gopg g = Some f
          \<and> orm_Select (client_gopg g) (f ()) i (orm_database gw) = ((m, None), d) \<longrightarrow>
        fst (Find_gopg g ctx i gw) = Inr m)"
  by (auto simp: Find_gopg_def called_def Let_def split: prod.splits option.splits)




lemma calls_target_refl: "calls_target t w w"
  by (simp add: calls_target_def)

lemma calls_target_append:
  "journal w' = journal w @ new \<Longrightarrow> list_all (targets t) new \<Longrightarrow> calls_target t w w'"
  by (simp add: calls_target_def)

lemma save_statement_table: "query_table (fst (save_statement t e)) = t"
  by (simp add: save_statement_def Let_def)

lemma Find_targets: "calls_target (TableName (config r)) w (snd (Find r ctx i w))"
  by (auto simp: Find_def GetContext_def Let_def calls_target_def
      split: option.splits prod.splits sum.splits)

lemma FindAll_targets: "calls_target (TableName (config r)) w (snd (FindAll r ctx w))"
  by (auto simp: FindAll_def QueryxContext_def Let_def calls_target_def
      split: option.splits prod.splits sum.splits)

lemma Save_targets: "calls_target (TableName (config r)) w (snd (Save r ctx e w))"
  using save_statement_table [of "TableName (config r)" e]
  by (auto simp: Save_def NamedExecContext_def calls_target_def
      split: option.splits prod.splits sum.splits)

lemma Remove_targets: "calls_target (TableName (config r)) w (snd (Remove r ctx i w))"
  by (auto simp: Remove_def ExecContext_def calls_target_def
      split: option.splits prod.splits sum.splits)

lemma Clear_targets: "calls_target (TableName (config r)) w (snd (Clear r ctx w))"
  by (auto simp: Clear_def BeginTx_def TxExec_def Commit_def calls_target_def
      split: option.splits prod.splits sum.splits)

lemma Find_namespace:
  "snd (Find r ctx i w) = snd (Find r ctx' i w)
   \<and> map_sum forget_namespace id (fst (Find r ctx i w)) =
     map_sum forget_namespace id (fst (Find r ctx' i w))"
  by (auto simp: Find_def Let_def split: option.splits prod.splits sum.splits)

lemma FindAll_namespace:
  "snd (FindAll r ctx w) = snd (FindAll r ctx' w)
   \<and> map_sum forget_namespace id (fst (FindAll r ctx w)) =
     map_sum forget_namespace id (fst (FindAll r ctx' w))"
  by (auto simp: FindAll_def Let_def split: option.splits prod.splits sum.splits)

lemma Save_namespace:
  "snd (Save r ctx e w) = snd (Save r ctx' e w)
   \<and> map_option forget_namespace (fst (Save r ctx e w)) =
     map_option forget_namespace (fst (Save r ctx' e w))"
  by (auto simp: Save_def split: option.splits prod.splits sum.splits)

lemma Remove_namespace:
  "snd (Remove r ctx i w) = snd (Remove r ctx' i w)
   \<and> map_option forget_namespace (fst (Remove r ctx i w)) =
     map_option forget_namespace (fst (Remove r ctx' i w))"
  by (auto simp: Remove_def split: option.splits prod.splits sum.splits)

lemma Clear_namespace:
  "snd (Clear r ctx w) = snd (Clear r ctx' w)
   \<and> map_outcome (map_option forget_namespace) (fst (Clear r ctx w)) =
     map_outcome (map_option forget_namespace) (fst (Clear r ctx' w))"
  by (auto simp: Clear_def split: option.splits prod.splits sum.splits)

lemma suffixed_name_differs: "t @ ''_'' @ ns \<noteq> t"
  by simp

lemma FindWithFilter_unchanged:
  "snd (FindWithFilter r ctx expr args w) = w"
  "snd (FindWithFilterUsingIndex r ctx ix fq fargs w) = w"
  by (simp_all add: FindWithFilter_def FindWithFilterUsingIndex_def split: option.splits)

lemma Save_gopg_without_factory:
  "EntityID e \<noteq> uuid_Nil \<Longrightarrow> factoryFn_gopg g = None \<Longrightarrow> Save_gopg g ctx e gw = (Panics, gw)"
  by (simp add: Save_gopg_def)

lemma returned_errors:
  "(fst (Find r ctx i w) = Inl err \<longrightarrow> is_RepoError err \<and> Namespace err = NamespaceFromContext ctx)
   \<and> (fst (FindWithFilter r ctx expr args w) = Inl err \<longrightarrow>
        is_RepoError err \<and> Namespace err = NamespaceFromContext ctx)
   \<and> (fst (FindWithFilterUsingIndex r ctx ix fq fargs w) = Inl err \<longrightarrow>
        is_RepoError err \<and> Namespace err = NamespaceFromContext ctx)
   \<and> (fst (Save r ctx e w) = Some err \<longrightarrow>
        is_RepoError err \<and> Namespace err = NamespaceFromContext ctx)
   \<and> (fst (Remove r ctx i w) = Some err \<longrightarrow>
        is_RepoError err \<and> Namespace err = NamespaceFromContext ctx)
   \<and> (fst (Clear r ctx w) = Returns (Some err) \<longrightarrow>
        is_RepoError err \<and> Namespace err = NamespaceFromContext ctx)
   \<and> (fst (FindAll r ctx w) = Inl err \<longrightarrow>
        is_RepoError err \<and> Namespace err = NamespaceFromContext ctx
        \<or> (\<exists>f rows d scan_err.
              factoryFn r = Some f
            \<and> drv_QueryxContext (client r) (SelectAll (TableName (config r))) (database w)
                = (Inr rows, d)
            \<and> scan_rows r f rows (f ()) [] = Inl err \<and> err = Driver scan_err))"
proof -
  have scan: "scan_rows r f rows m acc = Inl x \<Longrightarrow> \<exists>scan_err. x = Driver scan_err"
    for f rows m acc x
    by (induction rows arbitrary: m acc) (auto split: sum.splits)
  have find: "fst (Find r ctx i w) = Inl err \<longrightarrow>
      is_RepoError err \<and> Namespace err = NamespaceFromContext ctx"
    by (auto simp: Find_def GetContext_def Let_def split: option.splits prod.splits sum.splits)
  have filter: "fst (FindWithFilter r ctx expr args w) = Inl err \<longrightarrow>
      is_RepoError err \<and> Namespace err = NamespaceFromContext ctx"
    by (auto simp: FindWithFilter_def split: option.splits)
  have index: "fst (FindWithFilterUsingIndex r ctx ix fq fargs w) = Inl err \<longrightarrow>
      is_RepoError err \<and> Namespace err = NamespaceFromContext ctx"
    by (auto simp: FindWithFilterUsingIndex_def split: option.splits)
  have save: "fst (Save r ctx e w) = Some err \<longrightarrow>
      is_RepoError err \<and> Namespace err = NamespaceFromContext ctx"
    by (auto simp: Save_def NamedExecContext_def split: prod.splits sum.splits if_splits)
  have remove: "fst (Remove r ctx i w) = Some err \<longrightarrow>
      is_RepoError err \<and> Namespace err = NamespaceFromContext ctx"
    by (auto simp: Remove_def ExecContext_def split: prod.splits sum.splits if_splits)
  have clear: "fst (Clear r ctx w) = Returns (Some err) \<longrightarrow>
      is_RepoError err \<and> Namespace err = NamespaceFromContext ctx"
    by (auto simp: Clear_def BeginTx_def TxExec_def Commit_def
        split: prod.splits option.splits)
  have all: "fst (FindAll r ctx w) = Inl err \<longrightarrow>
        is_RepoError err \<and> Namespace err = NamespaceFromContext ctx
        \<or> (\<exists>f rows d scan_err.
              factoryFn r = Some f
            \<and> drv_QueryxContext (client r) (SelectAll (TableName (config r))) (database w)
                = (Inr rows, d)
            \<and> scan_rows r f rows (f ()) [] = Inl err \<and> err = Driver scan_err)"
  proof (cases "factoryFn r")
    case None
    then show ?thesis by (auto simp: FindAll_def)
  next
    case (Some f)
    obtain res d where q: "drv_QueryxContext (client r) (SelectAll (TableName (config r)))
        (database w) = (res, d)"
      by (cases "drv_QueryxContext (client r) (SelectAll (TableName (config r))) (database w)")
    show ?thesis
    proof (cases res)
      case (Inl qerr)
      then show ?thesis using Some q by (auto simp: FindAll_def QueryxContext_def)
    next
      case (Inr rows)
      show ?thesis
      proof (cases "scan_rows r f rows (f ()) []")
        case (Inl x)
        with scan obtain scan_err where "x = Driver scan_err" by blast
        with Inl Inr Some q show ?thesis
          by (auto simp: FindAll_def QueryxContext_def)
      next
        case (Inr result)
        with \<open>res = Inr rows\<close> Some q show ?thesis
          by (auto simp: FindAll_def QueryxContext_def)
      qed
    qed
  qed
  show ?thesis using find filter index save remove clear all by blast
qed



section \<open>The claims\<close>

text \<open>
  C10. \<open>NewRepoWithClient\<close> with a nil client returns no repository and the bare
  sentinel \<open>ErrNoDBClient\<close>, which is not a \<open>RepoError\<close> envelope and so carries no
  namespace; with any client that is not nil it returns a repository bound to that
  client and no error. Both implementations.
\<close>

theorem NewRepoWithClient_nil_client:
  "NewRepoWithClient cfg None = Inl ErrNoDBClient
   \<and> NewRepoWithClient_gopg cfg' None = Inl ErrNoDBClient
   \<and> \<not> is_RepoError ErrNoDBClient
   \<and> (\<exists>r. NewRepoWithClient cfg (Some c) = Inr r \<and> client r = c
          \<and> TableName (config r) = TableName cfg \<and> factoryFn r = None)
   \<and> (\<exists>r. NewRepoWithClient_gopg cfg' (Some c') = Inr r \<and> client_gopg r = c'
          \<and> config_gopg r = cfg' \<and> factoryFn_gopg r = None)"
  by (simp add: NewRepoWithClient_def NewRepoWithClient_gopg_def)

theorem NewRepoWithClient_nil_client_witness:
  "NewRepoWithClient test_config (None :: pg sqlx_DB option) = Inl ErrNoDBClient
   \<and> NewRepoWithClient test_config (Some pg_client) = Inr new_repo"
  using NewRepoWithClient_nil_client [of test_config _ pg_client]
  by (auto simp: NewRepoWithClient_def new_repo_def)

text \<open>
  C2. \<open>Save\<close> of an entity whose identifier is the zero UUID returns the envelope of
  kind \<open>ErrCouldNotSaveEntity\<close> whose cause is \<open>ErrMissingEntityID\<close>; the world is
  returned as it was, so no call was made on the client and no row was written.
  \<open>Save\<close> never returns \<open>ErrMissingEntityID\<close> on its own, for any entity. Both
  implementations.
\<close>

theorem Save_zero_identifier:
  assumes "EntityID e = uuid_Nil"
  shows "Save r ctx e w =
           (Some (RepoError ErrCouldNotSaveEntity (Some ErrMissingEntityID)
                    (NamespaceFromContext ctx)), w)
       \<and> Save_gopg r' ctx e w' =
           (Returns (Some (RepoError ErrCouldNotSaveEntity (Some ErrMissingEntityID)
                             (NamespaceFromContext ctx))), w')
       \<and> fst (Save r2 ctx2 e2 w2) \<noteq> Some ErrMissingEntityID
       \<and> fst (Save_gopg r3 ctx3 e3 w3) \<noteq> Returns (Some ErrMissingEntityID)"
  using assms
  by (auto simp: Save_def Save_gopg_def calls called_def
      split: prod.splits sum.splits option.splits)

theorem Save_zero_identifier_witness:
  "EntityID entityMissingID = uuid_Nil
   \<and> Save test_repo background entityMissingID start =
       (Some (RepoError ErrCouldNotSaveEntity (Some ErrMissingEntityID) ''default''), start)
   \<and> journal (snd (Save test_repo background entityMissingID start)) = []
   \<and> relations (database (snd (Save test_repo background entityMissingID start))) ''models''
       = Some []"
proof -
  have z: "EntityID entityMissingID = uuid_Nil"
    by (simp add: EntityID_def entityMissingID_def uuid_Nil_def)
  show ?thesis
    using z Save_zero_identifier [OF z, where r = test_repo and ctx = background
        and w = start, THEN conjunct1]
    by (simp add: NamespaceFromContext_def background_def start_def empty_db_def)
qed








text \<open>
  C1. On the reference database, with a factory set: when \<open>Save\<close> of an entity with
  a non-zero identifier succeeds, from whatever the table held before, \<open>Find\<close> of
  its identifier returns an entity equal to it in every field. Saving any other
  entity with the same identifier then succeeds as well, whatever the stored version
  is, and \<open>Find\<close> returns exactly the later entity.
\<close>

theorem Save_then_Find:
  assumes "client r = pg_client" and "factoryFn r = Some f" and "EntityID e \<noteq> uuid_Nil"
    and "Save r ctx e w = (None, w')"
  shows "fst (Find r ctx' (EntityID e) w') = Inr e
       \<and> (\<forall>e'' ctx''. EntityID e'' = EntityID e \<longrightarrow>
            fst (Save r ctx'' e'' w') = None
          \<and> fst (Find r ctx' (EntityID e) (snd (Save r ctx'' e'' w'))) = Inr e'')"
proof -
  have found: "fst (Find r c' (EntityID x) v') = Inr x \<and> \<not> conn_lost (database v')
      \<and> relations (database v') (TableName (config r)) \<noteq> None"
    if nz: "EntityID x \<noteq> uuid_Nil" and sv: "Save r c x v = (None, v')" for x c c' v v'
  proof -
    from sv obtain tbl where rel: "relation (database v) (TableName (config r)) = Inr tbl"
      and v': "v' = \<lparr>database = (database v)\<lparr>relations :=
                 (relations (database v))(TableName (config r) := Some (upserted x tbl))\<rparr>,
               journal = journal v @ [Statement (fst (save_statement (TableName (config r)) x))]\<rparr>"
      unfolding Save_on_pg [OF assms(1) nz] by (auto split: sum.splits)
    from rel have up: "\<not> conn_lost (database v)"
      by (auto simp: relation_def split: if_splits)
    have "relation (database v') (TableName (config r)) = Inr (upserted x tbl)"
      using up by (simp add: v' relation_def)
    then show ?thesis
      using up
      by (simp add: Find_on_pg [OF assms(1,2)] EntityID_def map_of_upserted scan_stored v')
  qed
  have first: "fst (Find r ctx' (EntityID e) w') = Inr e" and up: "\<not> conn_lost (database w')"
    and ex: "relations (database w') (TableName (config r)) \<noteq> None"
    using found [OF assms(3,4)] by simp_all
  have again: "fst (Save r c y w') = None" if "EntityID y \<noteq> uuid_Nil" for y c
    using up ex that
    by (auto simp: Save_on_pg [OF assms(1) that] relation_def split: sum.splits option.splits)
  show ?thesis
  proof (intro conjI allI impI)
    show "fst (Find r ctx' (EntityID e) w') = Inr e" by (rule first)
  next
    fix e'' ctx'' assume same: "EntityID e'' = EntityID e"
    then have nz: "EntityID e'' \<noteq> uuid_Nil" using assms(3) by simp
    show "fst (Save r ctx'' e'' w') = None" by (rule again [OF nz])
    then have "Save r ctx'' e'' w' = (None, snd (Save r ctx'' e'' w'))"
      by (simp add: prod_eq_iff)
    from found [OF nz this, of ctx'] same
    show "fst (Find r ctx' (EntityID e) (snd (Save r ctx'' e'' w'))) = Inr e''" by simp
  qed
qed

theorem Save_then_Find_witness:
  "EntityID entity1 \<noteq> uuid_Nil
   \<and> fst (Save test_repo background entity1 start) = None
   \<and> fst (Find test_repo background 1 (snd (Save test_repo background entity1 start))) =
       Inr entity1
   \<and> fst (Find test_repo background 1
        (snd (Save test_repo background entity1Alt
               (snd (Save test_repo background entity1 start))))) = Inr entity1Alt"
proof -
  let ?w' = "snd (Save test_repo background entity1 start)"
  have sv: "Save test_repo background entity1 start = (None, ?w')"
    by (simp add: Save_entity1_start)
  note t = Save_then_Find [OF test_repo_simps(1) test_repo_simps(3) entity_ids(1) sv,
      where ctx' = background]
  have over: "fst (Find test_repo background 1
        (snd (Save test_repo background entity1Alt ?w'))) = Inr entity1Alt"
    using t [THEN conjunct2, rule_format, of entity1Alt background]
    by (simp add: entity_ids)
  have ok: "fst (Save test_repo background entity1 start) = None"
    by (simp add: Save_entity1_start)
  show ?thesis
    using t [THEN conjunct1] over ok entity_ids(1) by (simp add: entity_ids(4))
qed




text \<open>
  C7. Every call that \<open>Find\<close>, \<open>FindAll\<close>, \<open>Save\<close>, \<open>Remove\<close> and \<open>Clear\<close> make on the
  client is a statement on the table named in the configuration (or the begin or
  commit of the transaction of \<open>Clear\<close>), for every client and every context. The
  name the builder of \<open>NewRepoWithClient\<close> would give, the table name followed by an
  underscore and the namespace, is never that name. No operation returns a changed
  repository, and setting the factory leaves the configuration alone. Two
  contexts give the same world and the same result but for the namespace written
  into a returned envelope.
\<close>

theorem queries_target_configured_table:
  "calls_target (TableName (config r)) w (snd (Find r ctx i w))
   \<and> calls_target (TableName (config r)) w (snd (FindAll r ctx w))
   \<and> calls_target (TableName (config r)) w (snd (Save r ctx e w))
   \<and> calls_target (TableName (config r)) w (snd (Remove r ctx i w))
   \<and> calls_target (TableName (config r)) w (snd (Clear r ctx w))
   \<and> TableName (config r) @ ''_'' @ NamespaceFromContext ctx \<noteq> TableName (config r)
   \<and> config (SetEntityFactory r fn) = config r
   \<and> (case NewRepoWithClient cfg (Some c) of
         Inl err \<Rightarrow> False
       | Inr r0 \<Rightarrow>
           TableName (config r0) = TableName cfg
         \<and> (case dbName (config r0) of
              None \<Rightarrow> False
            | Some builder \<Rightarrow>
                builder ctx = TableName cfg @ ''_'' @ NamespaceFromContext ctx))
   \<and> snd (Find r ctx i w) = snd (Find r ctx' i w)
   \<and> map_sum forget_namespace id (fst (Find r ctx i w)) =
       map_sum forget_namespace id (fst (Find r ctx' i w))
   \<and> snd (FindAll r ctx w) = snd (FindAll r ctx' w)
   \<and> map_sum forget_namespace id (fst (FindAll r ctx w)) =
       map_sum forget_namespace id (fst (FindAll r ctx' w))
   \<and> snd (Save r ctx e w) = snd (Save r ctx' e w)
   \<and> map_option forget_namespace (fst (Save r ctx e w)) =
       map_option forget_namespace (fst (Save r ctx' e w))
   \<and> snd (Remove r ctx i w) = snd (Remove r ctx' i w)
   \<and> map_option forget_namespace (fst (Remove r ctx i w)) =
       map_option forget_namespace (fst (Remove r ctx' i w))
   \<and> snd (Clear r ctx w) = snd (Clear r ctx' w)
   \<and> map_outcome (map_option forget_namespace) (fst (Clear r ctx w)) =
       map_outcome (map_option forget_namespace) (fst (Clear r ctx' w))"
  using Find_namespace [of r ctx i w ctx'] FindAll_namespace [of r ctx w ctx']
    Save_namespace [of r ctx e w ctx'] Remove_namespace [of r ctx i w ctx']
    Clear_namespace [of r ctx w ctx']
  by (simp add: Find_targets FindAll_targets Save_targets Remove_targets Clear_targets
      SetEntityFactory_def NewRepoWithClient_def)

theorem queries_target_configured_table_witness:
  "journal (snd (Find test_repo customNamespaceCtx 1 start)) =
     [Statement (SelectWhereId ''models'')]
   \<and> calls_target ''models'' start (snd (Find test_repo customNamespaceCtx 1 start))
   \<and> \<not> calls_target ''models_ns'' start (snd (Find test_repo customNamespaceCtx 1 start))
   \<and> fst (Find test_repo customNamespaceCtx 1 start) =
       Inl (RepoError ErrEntityNotFound (Some (Driver ErrNoRows)) ''ns'')
   \<and> fst (Find test_repo background 1 start) =
       Inl (RepoError ErrEntityNotFound (Some (Driver ErrNoRows)) ''default'')"
proof -
  have j: "journal (snd (Find test_repo ctx 1 start)) = [Statement (SelectWhereId ''models'')]"
    for ctx
    by (simp add: Find_on_pg test_repo_simps start_def)
  have f: "fst (Find test_repo ctx 1 start) =
       Inl (RepoError ErrEntityNotFound (Some (Driver ErrNoRows)) (NamespaceFromContext ctx))"
    for ctx
    using relation_start by (simp add: Find_on_pg test_repo_simps)
  have t: "calls_target ''models'' start (snd (Find test_repo customNamespaceCtx 1 start))"
    using queries_target_configured_table [where r = test_repo and ctx = customNamespaceCtx
        and i = 1 and w = start, THEN conjunct1]
    by (simp add: test_repo_simps)
  have n: "\<not> calls_target ''models_ns'' start (snd (Find test_repo customNamespaceCtx 1 start))"
    by (simp add: calls_target_def j) (simp add: start_def)
  show ?thesis
    using j t n f
    by (simp add: NamespaceFromContext_def customNamespaceCtx_def background_def)
qed

text \<open>
  C8, as the code has it. \<open>Save\<close> and \<open>Remove\<close> of the sqlx repository do not read the
  factory: on a repository without one, \<open>Save\<close> writes the row and \<open>Remove\<close> deletes
  it.
\<close>

theorem factory_not_required_by_writes_counterexample:
  "factoryFn new_repo = None
   \<and> fst (Save new_repo background entity1 start) = None
   \<and> journal (snd (Save new_repo background entity1 start)) =
       [Statement (fst (save_statement ''models'' entity1))]
   \<and> relations (database (snd (Save new_repo background entity1 start))) ''models'' =
       Some [stored entity1]
   \<and> fst (Remove new_repo background 1 (snd (Save new_repo background entity1 start))) = None"
proof -
  have s: "database start = empty_db" "journal start = []"
    by (simp_all add: start_def)
  have sv: "Save new_repo background entity1 start =
     (None, \<lparr>database = empty_db\<lparr>relations := (relations empty_db)(''models'' := Some [stored entity1])\<rparr>,
             journal = [Statement (fst (save_statement ''models'' entity1))]\<rparr>)"
    using relation_start
    by (simp add: Save_on_pg [OF test_repo_simps(5) entity_ids(1)] test_repo_simps
        entity_ids(7) upserted_def s)
  have rm: "fst (Remove new_repo background 1 (snd (Save new_repo background entity1 start))) = None"
    by (simp add: sv Remove_on_pg [OF test_repo_simps(5)] test_repo_simps relation_def
        empty_db_def stored_def entity_ids)
  show ?thesis using rm by (simp add: sv test_repo_simps)
qed

text \<open>
  C8, amended. Without a factory, \<open>Find\<close>, \<open>FindAll\<close>, \<open>FindWithFilter\<close> and
  \<open>FindWithFilterUsingIndex\<close> of both implementations, and \<open>Remove\<close> of the go-pg
  implementation, return the envelope of kind \<open>ErrModelNotSet\<close> and the world as
  it was, so they made no call on the client. \<open>Save\<close> and \<open>Remove\<close> of the sqlx
  repository run the same whatever the factory is.
\<close>

theorem factory_required_by_reads:
  assumes "factoryFn r = None" and "factoryFn_gopg g = None"
  shows "Find r ctx i w = (Inl (RepoError ErrModelNotSet None (NamespaceFromContext ctx)), w)
       \<and> FindAll r ctx w = (Inl (RepoError ErrModelNotSet None (NamespaceFromContext ctx)), w)
       \<and> FindWithFilter r ctx expr args w =
           (Inl (RepoError ErrModelNotSet None (NamespaceFromContext ctx)), w)
       \<and> FindWithFilterUsingIndex r ctx ix fq fargs w =
           (Inl (RepoError ErrModelNotSet None (NamespaceFromContext ctx)), w)
       \<and> Find_gopg g ctx i gw =
           (Inl (RepoError ErrModelNotSet None (NamespaceFromContext ctx)), gw)
       \<and> FindAll_gopg g ctx gw =
           (Inl (RepoError ErrModelNotSet None (NamespaceFromContext ctx)), gw)
       \<and> FindWithFilter_gopg g ctx expr args gw =
           (Inl (RepoError ErrModelNotSet None (NamespaceFromContext ctx)), gw)
       \<and> FindWithFilterUsingIndex_gopg g ctx ix fq fargs gw =
           (Inl (RepoError ErrModelNotSet None (NamespaceFromContext ctx)), gw)
       \<and> Remove_gopg g ctx i gw =
           (Some (RepoError ErrModelNotSet None (NamespaceFromContext ctx)), gw)
       \<and> Save (r\<lparr>factoryFn := fn\<rparr>) ctx e w = Save r ctx e w
       \<and> Remove (r\<lparr>factoryFn := fn\<rparr>) ctx i w = Remove r ctx i w"
  using assms
  by (simp add: Find_def FindAll_def FindWithFilter_def FindWithFilterUsingIndex_def
      Find_gopg_def FindAll_gopg_def FindWithFilter_gopg_def FindWithFilterUsingIndex_gopg_def
      Remove_gopg_def Save_def Remove_def NamedExecContext_def ExecContext_def)

theorem factory_required_by_reads_witness:
  "factoryFn new_repo = None
   \<and> Find new_repo background 1 start = (Inl (RepoError ErrModelNotSet None ''default''), start)
   \<and> FindAll new_repo background start = (Inl (RepoError ErrModelNotSet None ''default''), start)
   \<and> Remove_gopg (orm_repo\<lparr>factoryFn_gopg := None\<rparr>) background 1 orm_start =
       (Some (RepoError ErrModelNotSet None ''default''), orm_start)"
proof -
  have g: "factoryFn_gopg (orm_repo\<lparr>factoryFn_gopg := None\<rparr>) = None" by simp
  note t = factory_required_by_reads [OF test_repo_simps(4) g, where ctx = background
      and i = 1 and w = start and gw = orm_start]
  show ?thesis
    using t [THEN conjunct1] t [THEN conjunct2, THEN conjunct1]
      t [THEN conjunct2, THEN conjunct2, THEN conjunct2, THEN conjunct2, THEN conjunct2,
         THEN conjunct2, THEN conjunct2, THEN conjunct2, THEN conjunct1]
    by (simp add: test_repo_simps NamespaceFromContext_def background_def)
qed

text \<open>
  C9, at a failing input. The table holds a row whose \<open>version\<close> is NULL. \<open>FindAll\<close>
  returns the error of the scan as it is, not in a \<open>RepoError\<close> envelope, so with
  no kind and no namespace; \<open>Find\<close> of the same row wraps the same error.
\<close>

theorem FindAll_scan_error_unwrapped:
  "fst (FindAll test_repo background \<lparr>database = null_row_db, journal = []\<rparr>) =
     Inl (Driver (NullConversion ''version''))
   \<and> \<not> is_RepoError (Driver (NullConversion ''version''))
   \<and> fst (Find test_repo background 3 \<lparr>database = null_row_db, journal = []\<rparr>) =
     Inl (RepoError ErrEntityNotFound (Some (Driver (NullConversion ''version''))) ''default'')"
  by (simp add: FindAll_on_pg Find_on_pg test_repo_simps relation_def null_row_db_def
      pg_client_def row_of_def null_cells_def scan_column_def NamespaceFromContext_def
      background_def)

end
